theory Spec2Isabelle
  imports Complex_Main
begin

section \<open>JavaScript values used by the tracker\<close>

text \<open>
  A JavaScript number is a double. The model keeps the three non-finite values apart and
  idealises the finite ones to reals: rounding, overflow to an infinity and the sign of
  zero are not modelled. \<open>NaN\<close> and \<open>0\<close> are the two falsy numbers.
\<close>

datatype number = Fin real | PosInf | NegInf | NaN

text \<open>What a cell read can return: a number, or the empty-string placeholder.\<close>

datatype jsval = JNum number | JStr string

fun truthy :: "number \<Rightarrow> bool" where
  "truthy (Fin x) = (x \<noteq> 0)"
| "truthy NaN = False"
| "truthy _ = True"

text \<open>\<open>v || 0\<close> on a number.\<close>

definition or_zero :: "number \<Rightarrow> number" where
  "or_zero v = (if truthy v then v else Fin 0)"

text \<open>The operator \<open>+\<close> on two numbers.\<close>

fun jadd :: "number \<Rightarrow> number \<Rightarrow> number" where
  "jadd NaN _ = NaN"
| "jadd _ NaN = NaN"
| "jadd (Fin a) (Fin b) = Fin (a + b)"
| "jadd PosInf NegInf = NaN"
| "jadd NegInf PosInf = NaN"
| "jadd PosInf _ = PosInf"
| "jadd _ PosInf = PosInf"
| "jadd NegInf _ = NegInf"
| "jadd _ NegInf = NegInf"

fun jneg :: "number \<Rightarrow> number" where
  "jneg (Fin a) = Fin (- a)"
| "jneg PosInf = NegInf"
| "jneg NegInf = PosInf"
| "jneg NaN = NaN"

definition jsub :: "number \<Rightarrow> number \<Rightarrow> number" where
  "jsub a b = jadd a (jneg b)"

text \<open>The comparison \<open>a > b\<close>; every comparison with \<open>NaN\<close> is false.\<close>

fun jgt :: "number \<Rightarrow> number \<Rightarrow> bool" where
  "jgt NaN _ = False"
| "jgt _ NaN = False"
| "jgt (Fin a) (Fin b) = (a > b)"
| "jgt PosInf PosInf = False"
| "jgt PosInf _ = True"
| "jgt _ PosInf = False"
| "jgt NegInf _ = False"
| "jgt _ NegInf = True"




text \<open>Strict equality of two numbers (\<open>===\<close>): \<open>NaN\<close> equals nothing.\<close>

definition jeq :: "number \<Rightarrow> number \<Rightarrow> bool" where
  "jeq a b = (a \<noteq> NaN \<and> a = b)"

fun jmul :: "number \<Rightarrow> number \<Rightarrow> number" where
  "jmul NaN _ = NaN"
| "jmul _ NaN = NaN"
| "jmul (Fin a) (Fin b) = Fin (a * b)"
| "jmul (Fin a) PosInf = (if a = 0 then NaN else if a > 0 then PosInf else NegInf)"
| "jmul (Fin a) NegInf = (if a = 0 then NaN else if a > 0 then NegInf else PosInf)"
| "jmul PosInf (Fin b) = (if b = 0 then NaN else if b > 0 then PosInf else NegInf)"
| "jmul NegInf (Fin b) = (if b = 0 then NaN else if b > 0 then NegInf else PosInf)"
| "jmul PosInf PosInf = PosInf"
| "jmul NegInf NegInf = PosInf"
| "jmul PosInf NegInf = NegInf"
| "jmul NegInf PosInf = NegInf"

fun jdiv :: "number \<Rightarrow> number \<Rightarrow> number" where
  "jdiv NaN _ = NaN"
| "jdiv _ NaN = NaN"
| "jdiv (Fin a) (Fin b) =
     (if b \<noteq> 0 then Fin (a / b)
      else if a = 0 then NaN else if a > 0 then PosInf else NegInf)"
| "jdiv (Fin a) _ = Fin 0"
| "jdiv PosInf (Fin b) = (if b \<ge> 0 then PosInf else NegInf)"
| "jdiv NegInf (Fin b) = (if b \<ge> 0 then NegInf else PosInf)"
| "jdiv _ _ = NaN"

section \<open>Objects as association lists\<close>

text \<open>
  A plain object is an association list in property order; a well-formed object has each
  key once. \<open>obj[k]\<close> is \<open>map_of\<close>; the spread-and-set \<open>{...obj, [k]: v}\<close> keeps the
  position of an existing key and appends a new one. Names inherited from
  \<open>Object.prototype\<close> are not modelled: a key is found only if the object owns it.
\<close>

type_synonym ('k, 'v) obj = "('k \<times> 'v) list"

fun obj_set :: "('k, 'v) obj \<Rightarrow> 'k \<Rightarrow> 'v \<Rightarrow> ('k, 'v) obj" where
  "obj_set [] k v = [(k, v)]"
| "obj_set ((a, b) # ps) k v = (if a = k then (a, v) # ps else (a, b) # obj_set ps k v)"

text \<open>\<open>{...x}\<close> where \<open>x\<close> may be \<open>undefined\<close>: nothing is spread then.\<close>

definition spread :: "('k, 'v) obj option \<Rightarrow> ('k, 'v) obj" where
  "spread x = (case x of None \<Rightarrow> [] | Some ob \<Rightarrow> ob)"

definition wf_obj :: "('k, 'v) obj \<Rightarrow> bool" where
  "wf_obj ob = distinct (map fst ob)"

section \<open>The entry ledger\<close>

text \<open>
  \<open>entries\<close> maps a date key to an object from category names to objects from task names
  to hours. A date key \<open>YYYY-MM-DD\<close> is represented by its day number, the count of days
  since 1970-01-01 (so 2025-03-10 is day 20157); the conversion between the two is the
  built-in \<open>Date\<close>'s, and the order of the keys as strings is the order of the day numbers.
\<close>

type_synonym date = int
type_synonym tasks = "(string, number) obj"
type_synonym day_entries = "(string, tasks) obj"
type_synonym ledger = "(date, day_entries) obj"

text \<open>\<open>entries[date]?.[category]\<close> and \<open>entries[date]?.[category]?.[task]\<close>.\<close>

definition get_category :: "ledger \<Rightarrow> date \<Rightarrow> string \<Rightarrow> tasks option" where
  "get_category entries d c =
     (case map_of entries d of None \<Rightarrow> None | Some day \<Rightarrow> map_of day c)"

definition get_cell :: "ledger \<Rightarrow> date \<Rightarrow> string \<Rightarrow> string \<Rightarrow> number option" where
  "get_cell entries d c t =
     (case get_category entries d c of None \<Rightarrow> None | Some ts \<Rightarrow> map_of ts t)"

text \<open>
  \<open>getEntryValue\<close>: \<open>entries[date]?.[category]?.[task] || ''\<close>. The optional chain gives
  \<open>undefined\<close> when a level is missing, and \<open>||\<close> replaces every falsy result by the
  empty string.
\<close>

definition getEntryValue :: "ledger \<Rightarrow> date \<Rightarrow> string \<Rightarrow> string \<Rightarrow> jsval" where
  "getEntryValue entries d c t =
     (case get_cell entries d c t of
        None \<Rightarrow> JStr ''''
      | Some v \<Rightarrow> if truthy v then JNum v else JStr '''')"

subsection \<open>The built-in \<open>parseFloat\<close>\<close>

text \<open>
  \<open>parseFloat\<close> skips leading white space and reads the longest prefix that is a signed
  decimal literal: \<open>Infinity\<close>, or digits with an optional fraction and an optional
  exponent. With no such prefix the result is \<open>NaN\<close>. Strings are byte strings here, so
  only the ASCII white space is skipped.
\<close>

definition is_digit :: "char \<Rightarrow> bool" where
  "is_digit ch = (48 \<le> (of_char ch :: nat) \<and> (of_char ch :: nat) \<le> 57)"

definition digit_val :: "char \<Rightarrow> nat" where
  "digit_val ch = of_char ch - 48"

definition is_white :: "char \<Rightarrow> bool" where
  "is_white ch = ((of_char ch :: nat) \<in> set [9, 10, 11, 12, 13, 32])"

definition digits_val :: "string \<Rightarrow> nat" where
  "digits_val ds = foldl (\<lambda>a ch. 10 * a + digit_val ch) 0 ds"

definition starts_with :: "string \<Rightarrow> string \<Rightarrow> bool" where
  "starts_with p s = (take (length p) s = p)"

definition exp_digits :: "int \<Rightarrow> string \<Rightarrow> int" where
  "exp_digits sg r = sg * int (digits_val (takeWhile is_digit r))"

text \<open>
  The value of the exponent part at the head of \<open>s\<close>, and 0 when there is none: an
  \<open>e\<close> that no digit follows is not part of the literal.
\<close>

definition exponent_part :: "string \<Rightarrow> int" where
  "exponent_part s =
     (case s of
        [] \<Rightarrow> 0
      | ch # r \<Rightarrow>
          if ch = CHR ''e'' \<or> ch = CHR ''E'' then
            (case r of
               [] \<Rightarrow> 0
             | sg # r1 \<Rightarrow>
                 if sg = CHR ''+'' then exp_digits 1 r1
                 else if sg = CHR ''-'' then exp_digits (- 1) r1
                 else exp_digits 1 r)
          else 0)"

definition scale10 :: "real \<Rightarrow> int \<Rightarrow> real" where
  "scale10 m e = (if e \<ge> 0 then m * 10 ^ nat e else m / 10 ^ nat (- e))"

definition parse_unsigned :: "string \<Rightarrow> number" where
  "parse_unsigned s =
     (if starts_with ''Infinity'' s then PosInf
      else
        let ip = takeWhile is_digit s; r1 = dropWhile is_digit s in
        (case r1 of
           [] \<Rightarrow> if ip = [] then NaN else Fin (real (digits_val ip))
         | ch # r \<Rightarrow>
             if ch = CHR ''.'' then
               (let fp = takeWhile is_digit r; r2 = dropWhile is_digit r in
                if ip = [] \<and> fp = [] then NaN
                else Fin (scale10 (real (digits_val (ip @ fp)))
                            (exponent_part r2 - int (length fp))))
             else if ip = [] then NaN
             else Fin (scale10 (real (digits_val ip)) (exponent_part r1))))"

definition parseFloat :: "string \<Rightarrow> number" where
  "parseFloat s =
     (let t = dropWhile is_white s in
      case t of
        [] \<Rightarrow> NaN
      | ch # r \<Rightarrow>
          if ch = CHR ''+'' then parse_unsigned r
          else if ch = CHR ''-'' then jneg (parse_unsigned r)
          else parse_unsigned t)"

subsection \<open>Writing a cell\<close>

text \<open>
  \<open>updateEntry\<close>: \<open>numValue = parseFloat(value) || 0\<close>, then the ledger is rebuilt with the
  one cell replaced, the date and category objects being created when missing.
\<close>

definition updateEntry :: "ledger \<Rightarrow> date \<Rightarrow> string \<Rightarrow> string \<Rightarrow> string \<Rightarrow> ledger" where
  "updateEntry entries d c t v =
     (let numValue = or_zero (parseFloat v) in
      obj_set entries d
        (obj_set (spread (map_of entries d)) c
           (obj_set (spread (get_category entries d c)) t numValue)))"

subsection \<open>Totals\<close>

text \<open>The inner reduction \<open>Object.values(catData).reduce((s, v) => s + (v || 0), 0)\<close>.\<close>

definition sum_tasks :: "tasks \<Rightarrow> number" where
  "sum_tasks catData = foldl (\<lambda>s v. jadd s (or_zero v)) (Fin 0) (map snd catData)"

definition getDayTotal :: "ledger \<Rightarrow> date \<Rightarrow> number" where
  "getDayTotal entries d =
     (case map_of entries d of
        None \<Rightarrow> Fin 0
      | Some day \<Rightarrow> foldl (\<lambda>sum catData. jadd sum (sum_tasks catData)) (Fin 0) (map snd day))"

definition getCategoryTotal :: "ledger \<Rightarrow> date \<Rightarrow> string \<Rightarrow> number" where
  "getCategoryTotal entries d c =
     (case get_category entries d c of
        None \<Rightarrow> Fin 0
      | Some catData \<Rightarrow> sum_tasks catData)"


text \<open>The categories that own a key in the object of a date.\<close>

definition categories_of :: "ledger \<Rightarrow> date \<Rightarrow> string list" where
  "categories_of entries d = map fst (spread (map_of entries d))"

definition wf_ledger :: "ledger \<Rightarrow> bool" where
  "wf_ledger entries =
     (wf_obj entries \<and>
      list_all (\<lambda>day. wf_obj (snd day) \<and> list_all (\<lambda>cat. wf_obj (snd cat)) (snd day)) entries)"

section \<open>The category taxonomy\<close>

type_synonym taxonomy = "(string, string list) obj"

record state =
  st_entries :: ledger
  st_categories :: taxonomy

datatype error = TypeError

text \<open>
  \<open>removeTask\<close> asks for confirmation first and returns when it is refused. The updater
  then filters the task list of the category; for a category the taxonomy does not have,
  \<open>prev[category]\<close> is \<open>undefined\<close> and the call of \<open>filter\<close> on it throws.
\<close>

definition removeTask :: "bool \<Rightarrow> state \<Rightarrow> string \<Rightarrow> string \<Rightarrow> error + state" where
  "removeTask confirmed st category task =
     (if \<not> confirmed then Inr st
      else case map_of (st_categories st) category of
             None \<Rightarrow> Inl TypeError
           | Some ts \<Rightarrow>
               Inr (st\<lparr>st_categories :=
                      obj_set (st_categories st) category (filter (\<lambda>t. t \<noteq> task) ts)\<rparr>))"

section \<open>Dates\<close>

text \<open>
  A \<open>Date\<close> object holds a time value, the milliseconds since 1970-01-01T00:00Z. Parsing a
  date key and \<open>toISOString\<close> work in UTC; \<open>getDay\<close>, \<open>getDate\<close>, \<open>setDate\<close> and \<open>setHours\<close>
  work in the local zone of the runtime. The zone is a parameter \<open>tz\<close> of the model: the
  minutes that local time is ahead of UTC (600 in Brisbane, \<open>-300\<close> in New York in winter).
  It is a fixed offset, so changes of daylight-saving time are not modelled, and neither
  is the bound on time values beyond which a \<open>Date\<close> becomes invalid.
\<close>

definition msPerDay :: int where
  "msPerDay = 86400000"

text \<open>\<open>new Date(dateStr)\<close> for a date key: midnight UTC of that day.\<close>

definition newDate :: "date \<Rightarrow> int" where
  "newDate key = key * msPerDay"

text \<open>The local calendar day, as a day number, in which a time value lies.\<close>

definition localDay :: "int \<Rightarrow> int \<Rightarrow> int" where
  "localDay tz t = (t + tz * 60000) div msPerDay"

text \<open>\<open>getDay()\<close>: the local weekday, 0 for Sunday; 1970-01-01 was a Thursday.\<close>

definition getDay :: "int \<Rightarrow> int \<Rightarrow> int" where
  "getDay tz t = (localDay tz t + 4) mod 7"

text \<open>
  \<open>x.setDate(x.getDate() + k)\<close>: the local day of the month moves by \<open>k\<close>, with carry into
  the months, and the local time of day stays.
\<close>

definition addDays :: "int \<Rightarrow> int \<Rightarrow> int" where
  "addDays t k = t + k * msPerDay"

text \<open>\<open>toISOString().split('T')[0]\<close>: the key of the UTC day in which a time value lies.\<close>

definition toISODate :: "int \<Rightarrow> date" where
  "toISODate t = t div msPerDay"

text \<open>\<open>setHours(0, 0, 0, 0)\<close>: local midnight of the local day.\<close>

definition setHoursZero :: "int \<Rightarrow> int \<Rightarrow> int" where
  "setHoursZero tz t = localDay tz t * msPerDay - tz * 60000"

definition getWeekDates :: "int \<Rightarrow> date \<Rightarrow> date list" where
  "getWeekDates tz baseDate =
     (let d = newDate baseDate;
          day = getDay tz d;
          monday = addDays d (- (if day = 0 then 6 else day - 1))
      in map (\<lambda>i. toISODate (addDays monday (int i))) [0..<7])"

text \<open>
  Two notions of the calendar itself, to state what a week is: the weekday of a date key
  (0 for Sunday), and the Monday on or before a date.
\<close>

definition weekday :: "date \<Rightarrow> int" where
  "weekday d = (d + 4) mod 7"

definition weekStart :: "date \<Rightarrow> date" where
  "weekStart x = x - (x + 3) mod 7"

section \<open>Settings\<close>

record working =
  Research :: number
  Teaching :: number
  Service :: number

record totals = working +
  Other :: number

record week = totals +
  wk_total :: number

record missingDataWarning =
  mdw_enabled :: bool
  mdw_days :: int
  mdw_includeWeekends :: bool

record settings =
  hoursPerWeek :: number
  carryoverHours :: number
  allocation :: working
  missingDataWarning :: missingDataWarning

definition DEFAULT_ALLOCATION :: working where
  "DEFAULT_ALLOCATION = \<lparr>Research = Fin 40, Teaching = Fin 40, Service = Fin 20\<rparr>"

definition default_settings :: settings where
  "default_settings =
     \<lparr>hoursPerWeek = Fin 37.5, carryoverHours = Fin 0, allocation = DEFAULT_ALLOCATION,
      missingDataWarning = \<lparr>mdw_enabled = True, mdw_days = 5, mdw_includeWeekends = False\<rparr>\<rparr>"

section \<open>The missing-data detector\<close>

text \<open>
  A record of the result. \<open>md_formatted\<close> stands for the label that
  \<open>toLocaleDateString\<close> renders: it is the local day that the label shows.
\<close>

record missing_day =
  md_date :: date
  md_formatted :: int
  md_isWeekend :: bool

text \<open>
  The rank that the loop decreases: three for every day still to scan, plus the number of
  weekend days that lie directly ahead of the walk.
\<close>

definition weekend_ahead :: "int \<Rightarrow> nat" where
  "weekend_ahead w = (if w = 0 then 2 else if w = 6 then 1 else 0)"

definition loop_rank :: "int \<Rightarrow> int \<Rightarrow> int \<Rightarrow> int \<Rightarrow> nat" where
  "loop_rank tz days daysChecked currentDate =
     3 * nat (days - daysChecked) + weekend_ahead (getDay tz currentDate)"

text \<open>The \<open>while\<close> loop of \<open>getMissingDays\<close>, with its three variables as arguments.\<close>

function missing_loop ::
  "ledger \<Rightarrow> int \<Rightarrow> int \<Rightarrow> bool \<Rightarrow> int \<Rightarrow> int \<Rightarrow> missing_day list \<Rightarrow> missing_day list" where
  "missing_loop entries tz days includeWeekends daysChecked currentDate missingDays =
     (if daysChecked < days then
        (if \<not> includeWeekends \<and> (getDay tz currentDate = 0 \<or> getDay tz currentDate = 6) then
           missing_loop entries tz days includeWeekends daysChecked (addDays currentDate (- 1))
             missingDays
         else
           missing_loop entries tz days includeWeekends (daysChecked + 1)
             (addDays currentDate (- 1))
             (if jeq (getDayTotal entries (toISODate currentDate)) (Fin 0)
              then missingDays @
                   [\<lparr>md_date = toISODate currentDate,
                     md_formatted = localDay tz currentDate,
                     md_isWeekend = (getDay tz currentDate = 0 \<or> getDay tz currentDate = 6)\<rparr>]
              else missingDays))
      else missingDays)"
  by pat_completeness auto

termination missing_loop
proof (relation "measure (\<lambda>(entries, tz, days, includeWeekends, daysChecked, currentDate, missingDays).
                   loop_rank tz days daysChecked currentDate)")
  fix entries :: ledger and tz days :: int and includeWeekends :: bool
    and daysChecked currentDate :: int and missingDays :: "missing_day list"
  have "localDay tz (addDays currentDate (- 1)) = localDay tz currentDate - 1"
    by (simp add: localDay_def addDays_def msPerDay_def)
  then have "getDay tz (addDays currentDate (- 1)) = (localDay tz currentDate + 3) mod 7"
    by (simp add: getDay_def add.commute)
  also have "\<dots> = (localDay tz currentDate + 3 + 7) mod 7"
    by (simp only: mod_add_self2)
  also have "\<dots> = (getDay tz currentDate + 6) mod 7"
    by (simp add: getDay_def mod_simps)
  finally have prev: "getDay tz (addDays currentDate (- 1)) = (getDay tz currentDate + 6) mod 7" .
  have le2: "weekend_ahead (getDay tz (addDays currentDate (- 1))) \<le> 2"
    by (simp add: weekend_ahead_def)
  {
    assume "\<not> includeWeekends \<and> (getDay tz currentDate = 0 \<or> getDay tz currentDate = 6)"
    then have "loop_rank tz days daysChecked (addDays currentDate (- 1))
                 < loop_rank tz days daysChecked currentDate"
      by (auto simp: loop_rank_def weekend_ahead_def prev)
    then show "((entries, tz, days, includeWeekends, daysChecked, addDays currentDate (- 1),
                 missingDays),
                entries, tz, days, includeWeekends, daysChecked, currentDate, missingDays)
               \<in> measure (\<lambda>(entries, tz, days, includeWeekends, daysChecked, currentDate,
                     missingDays). loop_rank tz days daysChecked currentDate)"
      by simp
  }
  {
    fix acc :: "missing_day list"
    assume "daysChecked < days"
    then have "3 * nat (days - (daysChecked + 1)) + 3 = 3 * nat (days - daysChecked)"
      by simp
    with le2 have "loop_rank tz days (daysChecked + 1) (addDays currentDate (- 1))
                 < loop_rank tz days daysChecked currentDate"
      unfolding loop_rank_def by linarith
    then show "((entries, tz, days, includeWeekends, daysChecked + 1, addDays currentDate (- 1),
                 acc),
                entries, tz, days, includeWeekends, daysChecked, currentDate, missingDays)
               \<in> measure (\<lambda>(entries, tz, days, includeWeekends, daysChecked, currentDate,
                     missingDays). loop_rank tz days daysChecked currentDate)"
      by simp
  }
qed simp

declare missing_loop.simps [simp del]

text \<open>
  \<open>getMissingDays\<close>, with the clock reading \<open>now\<close> of \<open>new Date()\<close> as an argument: nothing
  when the warning is disabled, otherwise the loop from local midnight of yesterday.
\<close>

definition getMissingDays :: "ledger \<Rightarrow> missingDataWarning \<Rightarrow> int \<Rightarrow> int \<Rightarrow> missing_day list" where
  "getMissingDays entries mdw tz now =
     (if \<not> mdw_enabled mdw then []
      else
        let today = setHoursZero tz now;
            currentDate = addDays today (- 1)
        in missing_loop entries tz (mdw_days mdw) (mdw_includeWeekends mdw) 0 currentDate [])"

text \<open>
  The walk as the specification describes it, to compare the loop with. From a candidate
  day, the next scanned day is the day itself, or the Friday before when the day is a
  weekend day and weekends are excluded; the window holds a given number of scanned days,
  each found from the day before the previous one.
\<close>

definition next_scan :: "int \<Rightarrow> bool \<Rightarrow> int \<Rightarrow> int" where
  "next_scan tz includeWeekends t =
     (if includeWeekends then t
      else if getDay tz t = 0 then addDays t (- 2)
      else if getDay tz t = 6 then addDays t (- 1)
      else t)"

fun scan_window :: "int \<Rightarrow> bool \<Rightarrow> nat \<Rightarrow> int \<Rightarrow> int list" where
  "scan_window tz includeWeekends 0 t = []"
| "scan_window tz includeWeekends (Suc n) t =
     next_scan tz includeWeekends t #
     scan_window tz includeWeekends n (addDays (next_scan tz includeWeekends t) (- 1))"

definition is_missing :: "ledger \<Rightarrow> int \<Rightarrow> bool" where
  "is_missing entries t = jeq (getDayTotal entries (toISODate t)) (Fin 0)"

definition missing_record :: "int \<Rightarrow> int \<Rightarrow> missing_day" where
  "missing_record tz t =
     \<lparr>md_date = toISODate t, md_formatted = localDay tz t,
      md_isWeekend = (getDay tz t = 0 \<or> getDay tz t = 6)\<rparr>"

section \<open>Statistics\<close>

text \<open>
  \<open>stats\<close> reads the ledger through its keys and through the two callbacks \<open>getDayTotal\<close>
  and \<open>getCategoryTotal\<close>; the helpers below take the callbacks as arguments in the same
  way. \<open>allDates\<close> are the keys with a positive day total, sorted.
\<close>

definition allDates :: "ledger \<Rightarrow> date list" where
  "allDates entries = sort (filter (\<lambda>d. jgt (getDayTotal entries d) (Fin 0)) (map fst entries))"

definition sum_dates :: "(date \<Rightarrow> number) \<Rightarrow> date list \<Rightarrow> number" where
  "sum_dates f ds = foldl (\<lambda>s d. jadd s (f d)) (Fin 0) ds"

text \<open>Reading a numeric property: a missing one is \<open>undefined\<close>, which is \<open>NaN\<close> in arithmetic.\<close>

definition num_get :: "('k, number) obj \<Rightarrow> 'k \<Rightarrow> number" where
  "num_get ob k = (case map_of ob k of None \<Rightarrow> NaN | Some x \<Rightarrow> x)"

definition zero_week :: week where
  "zero_week = \<lparr>Research = Fin 0, Teaching = Fin 0, Service = Fin 0, Other = Fin 0,
                 wk_total = Fin 0\<rparr>"

text \<open>One round of the loop that fills \<open>weeklyData\<close>.\<close>

definition weekly_step ::
  "int \<Rightarrow> (date \<Rightarrow> number) \<Rightarrow> (date \<Rightarrow> string \<Rightarrow> number) \<Rightarrow> (date, week) obj \<Rightarrow> date \<Rightarrow>
   (date, week) obj" where
  "weekly_step tz dayTotal catTotal weeklyData d =
     (let weekStart = hd (getWeekDates tz d);
          w = (case map_of weeklyData weekStart of None \<Rightarrow> zero_week | Some w0 \<Rightarrow> w0)
      in obj_set weeklyData weekStart
           (w\<lparr>Research := jadd (Research w) (catTotal d ''Research''),
              Teaching := jadd (Teaching w) (catTotal d ''Teaching''),
              Service := jadd (Service w) (catTotal d ''Service''),
              Other := jadd (Other w) (catTotal d ''Other''),
              wk_total := jadd (wk_total w) (dayTotal d)\<rparr>))"

definition dayNames :: "string list" where
  "dayNames = [''Sun'', ''Mon'', ''Tue'', ''Wed'', ''Thu'', ''Fri'', ''Sat'']"

definition dow_zero :: "(string, number) obj" where
  "dow_zero = [(''Mon'', Fin 0), (''Tue'', Fin 0), (''Wed'', Fin 0), (''Thu'', Fin 0),
               (''Fri'', Fin 0), (''Sat'', Fin 0), (''Sun'', Fin 0)]"

text \<open>One round of the loop over the days of the week: the totals and the counts.\<close>

definition dow_step ::
  "int \<Rightarrow> (date \<Rightarrow> number) \<Rightarrow> (string, number) obj \<times> (string, number) obj \<Rightarrow> date \<Rightarrow>
   (string, number) obj \<times> (string, number) obj" where
  "dow_step tz dayTotal acc d =
     (let dayName = dayNames ! nat (getDay tz (newDate d));
          hours = dayTotal d
      in if jgt hours (Fin 0)
         then (obj_set (fst acc) dayName (jadd (num_get (fst acc) dayName) hours),
               obj_set (snd acc) dayName (jadd (num_get (snd acc) dayName) (Fin 1)))
         else acc)"

record stats =
  totalHours :: number
  workingHoursTotal :: number
  categoryTotals :: totals
  actualPercentages :: working
  allocationDiff :: working
  weeksWorked :: nat
  daysWorked :: nat
  avgWeek :: number
  avgDay :: number
  overUnder :: number
  weeklyData :: "(date \<times> week) list"
  dayOfWeekAvg :: "(string \<times> number) list"

text \<open>
  The body of \<open>stats\<close> after \<open>allDates\<close>. The two chart tables \<open>radarData\<close> and
  \<open>categoryPercentages\<close>, which repeat \<open>actualPercentages\<close>, \<open>categoryTotals\<close> and the
  allocation for the charts, are left out.
\<close>

definition compute_stats ::
  "int \<Rightarrow> settings \<Rightarrow> (date \<Rightarrow> number) \<Rightarrow> (date \<Rightarrow> string \<Rightarrow> number) \<Rightarrow> date list \<Rightarrow>
   stats option" where
  "compute_stats tz st dayTotal catTotal ds =
     (if length ds = 0 then None
      else
        let total = sum_dates dayTotal ds;
            cats = \<lparr>Research = sum_dates (\<lambda>d. catTotal d ''Research'') ds,
                    Teaching = sum_dates (\<lambda>d. catTotal d ''Teaching'') ds,
                    Service = sum_dates (\<lambda>d. catTotal d ''Service'') ds,
                    Other = sum_dates (\<lambda>d. catTotal d ''Other'') ds\<rparr>;
            working = jadd (jadd (Research cats) (Teaching cats)) (Service cats);
            actual =
              \<lparr>Research = (if jgt working (Fin 0)
                            then jmul (jdiv (Research cats) working) (Fin 100) else Fin 0),
               Teaching = (if jgt working (Fin 0)
                            then jmul (jdiv (Teaching cats) working) (Fin 100) else Fin 0),
               Service = (if jgt working (Fin 0)
                           then jmul (jdiv (Service cats) working) (Fin 100) else Fin 0)\<rparr>;
            diff = \<lparr>Research = jsub (Research actual) (Research (allocation st)),
                    Teaching = jsub (Teaching actual) (Teaching (allocation st)),
                    Service = jsub (Service actual) (Service (allocation st))\<rparr>;
            weekly = foldl (weekly_step tz dayTotal catTotal) [] ds;
            weeks = length weekly;
            expectedHours = jmul (Fin (real weeks)) (hoursPerWeek st);
            dow = foldl (dow_step tz dayTotal) (dow_zero, dow_zero) ds
        in Some
             \<lparr>totalHours = total,
              workingHoursTotal = working,
              categoryTotals = cats,
              actualPercentages = actual,
              allocationDiff = diff,
              weeksWorked = weeks,
              daysWorked = length ds,
              avgWeek = (if weeks > 0 then jdiv total (Fin (real weeks)) else Fin 0),
              avgDay = (if length ds > 0 then jdiv total (Fin (real (length ds))) else Fin 0),
              overUnder = jadd (jsub total expectedHours) (carryoverHours st),
              weeklyData = sort_key fst weekly,
              dayOfWeekAvg =
                map (\<lambda>day. (day, if jgt (num_get (snd dow) day) (Fin 0)
                                  then jdiv (num_get (fst dow) day) (num_get (snd dow) day)
                                  else Fin 0))
                  (map fst (fst dow))\<rparr>)"

text \<open>\<open>stats\<close> itself: \<open>null\<close>, here \<open>None\<close>, when no date has a positive total.\<close>

definition stats :: "int \<Rightarrow> settings \<Rightarrow> ledger \<Rightarrow> stats option" where
  "stats tz st entries =
     compute_stats tz st (getDayTotal entries) (getCategoryTotal entries) (allDates entries)"

section \<open>Banding of the allocation deltas\<close>





section \<open>Sample data\<close>

text \<open>
  The ledger of the specification's scenario: 2025-03-10 (day 20157, a Monday) with
  Research/Writing 4 and Teaching/Delivery 3, and 2025-03-11 with Service/Admin 2.
\<close>

definition ledger1 :: ledger where
  "ledger1 =
     [(20157, [(''Research'', [(''Writing'', Fin 4)]), (''Teaching'', [(''Delivery'', Fin 3)])]),
      (20158, [(''Service'', [(''Admin'', Fin 2)])])]"

definition state1 :: state where
  "state1 = \<lparr>st_entries = ledger1,
             st_categories = [(''Research'', [''Writing'', ''Reading'']),
                              (''Teaching'', [''Delivery''])]\<rparr>"

text \<open>A ledger with eight hours of leave on 2025-03-10 and nothing else, and its statistics.\<close>

definition leave_ledger :: ledger where
  "leave_ledger = [(20157, [(''Other'', [(''Annual Leave'', Fin 8)])])]"

definition leave_stats :: stats where
  "leave_stats =
     \<lparr>totalHours = Fin 8, workingHoursTotal = Fin 0,
      categoryTotals = \<lparr>Research = Fin 0, Teaching = Fin 0, Service = Fin 0, Other = Fin 8\<rparr>,
      actualPercentages = \<lparr>Research = Fin 0, Teaching = Fin 0, Service = Fin 0\<rparr>,
      allocationDiff = \<lparr>Research = Fin (- 40), Teaching = Fin (- 40), Service = Fin (- 20)\<rparr>,
      weeksWorked = 1, daysWorked = 1, avgWeek = Fin 8, avgDay = Fin 8,
      overUnder = Fin (- (59 / 2)),
      weeklyData = [(20157, \<lparr>Research = Fin 0, Teaching = Fin 0, Service = Fin 0,
                       Other = Fin 8, wk_total = Fin 8\<rparr>)],
      dayOfWeekAvg = [(''Mon'', Fin 8), (''Tue'', Fin 0), (''Wed'', Fin 0), (''Thu'', Fin 0),
                      (''Fri'', Fin 0), (''Sat'', Fin 0), (''Sun'', Fin 0)]\<rparr>"



text \<open>A ledger with two hours on Tuesday 2025-03-11 only, and one with Monday only.\<close>

definition tuesday_ledger :: ledger where
  "tuesday_ledger = [(20158, [(''Service'', [(''Admin'', Fin 2)])])]"

definition monday_ledger :: ledger where
  "monday_ledger = [(20157, [(''Research'', [(''Writing'', Fin 4)])])]"

section \<open>Properties of objects\<close>

lemma map_of_obj_set: "map_of (obj_set ob k v) = (map_of ob)(k \<mapsto> v)"
  by (induction ob) (auto simp: fun_eq_iff)

lemma get_category_updateEntry:
  "get_category (updateEntry entries d c t v) d' c' =
     (if d' = d \<and> c' = c
      then Some (obj_set (spread (get_category entries d c)) t (or_zero (parseFloat v)))
      else get_category entries d' c')"
  by (auto simp: get_category_def updateEntry_def map_of_obj_set spread_def Let_def
           split: option.splits)

lemma get_cell_updateEntry:
  "get_cell (updateEntry entries d c t v) d' c' t' =
     (if d' = d \<and> c' = c \<and> t' = t then Some (or_zero (parseFloat v))
      else get_cell entries d' c' t')"
  by (auto simp: get_cell_def get_category_updateEntry map_of_obj_set spread_def
           split: option.splits)

lemma or_zero_not_NaN: "or_zero v \<noteq> NaN"
  by (cases v) (auto simp: or_zero_def)

lemma parseFloat_minus3: "parseFloat ''-3'' = Fin (- 3)"
  by (simp add: parseFloat_def parse_unsigned_def is_white_def is_digit_def starts_with_def
        digits_val_def digit_val_def Let_def)


lemma foldl_keys_values:
  "\<forall>p \<in> set ps. h (fst p) = g (snd p) \<Longrightarrow>
   foldl (\<lambda>s k. jadd s (h k)) a (map fst ps) = foldl (\<lambda>s v. jadd s (g v)) a (map snd ps)"
  by (induction ps arbitrary: a) simp_all

lemma getCategoryTotal_present:
  assumes "map_of entries d = Some day" "wf_obj day" "(c, ts) \<in> set day"
  shows "getCategoryTotal entries d c = sum_tasks ts"
  using assms by (simp add: getCategoryTotal_def get_category_def wf_obj_def)

section \<open>The ledger store\<close>

text \<open>
  Claim C1, as the code has it. For every ledger, date, category, task and raw string,
  \<open>updateEntry\<close> stores \<open>parseFloat(raw) || 0\<close>: the parsed number, and 0 when the parse
  fails or gives 0. The stored value is never \<open>NaN\<close>. There is no clamp, so a negative
  parse is stored as it is. Reading the cell back with \<open>getEntryValue\<close> gives the parsed
  number when it is truthy and the empty string otherwise.
\<close>

theorem updateEntry_stores_parsed_or_zero:
  "get_cell (updateEntry entries d c t v) d c t = Some (or_zero (parseFloat v)) \<and>
   or_zero (parseFloat v) \<noteq> NaN \<and>
   or_zero (parseFloat v) = (if parseFloat v = NaN then Fin 0 else parseFloat v) \<and>
   getEntryValue (updateEntry entries d c t v) d c t =
     (if truthy (parseFloat v) then JNum (parseFloat v) else JStr '''')"
  apply (simp add: get_cell_updateEntry getEntryValue_def or_zero_not_NaN)
  apply (cases "parseFloat v"; simp add: or_zero_def)
  done

text \<open>
  The claim as the specification words it asks for 0 after a negative input. Writing
  \<open>-3\<close> into an empty ledger stores \<open>-3\<close>, and the read returns \<open>-3\<close>, not \<open>max(0, -3)\<close>.
\<close>

theorem updateEntry_negative_counterexample:
  "parseFloat ''-3'' = Fin (- 3) \<and>
   get_cell (updateEntry [] 20157 ''Research'' ''Writing'' ''-3'') 20157 ''Research'' ''Writing''
     = Some (Fin (- 3)) \<and>
   getEntryValue (updateEntry [] 20157 ''Research'' ''Writing'' ''-3'') 20157 ''Research'' ''Writing''
     = JNum (Fin (- 3)) \<and>
   getEntryValue (updateEntry [] 20157 ''Research'' ''Writing'' ''-3'') 20157 ''Research'' ''Writing''
     \<noteq> JNum (Fin (max 0 (- 3)))"
  by (simp add: parseFloat_minus3 get_cell_updateEntry getEntryValue_def or_zero_def)




text \<open>
  Claim C4. For every ledger and date, \<open>getDayTotal\<close> is the sum, taken in property order
  from 0, of \<open>getCategoryTotal\<close> over the categories present for that date; for a date
  with no entries the day total and every category total are 0. The hypothesis is the
  uniqueness of keys that every object has.
\<close>

theorem getDayTotal_sum_categories:
  assumes "wf_obj (spread (map_of entries d))"
  shows "getDayTotal entries d =
           foldl (\<lambda>s c. jadd s (getCategoryTotal entries d c)) (Fin 0) (categories_of entries d) \<and>
         (map_of entries d = None \<longrightarrow>
            getDayTotal entries d = Fin 0 \<and> (\<forall>c. getCategoryTotal entries d c = Fin 0))"
proof (cases "map_of entries d")
  case None
  then show ?thesis
    by (simp add: getDayTotal_def getCategoryTotal_def get_category_def categories_of_def spread_def)
next
  case (Some day)
  with assms have wf: "wf_obj day" by (simp add: spread_def)
  have "foldl (\<lambda>s c. jadd s (getCategoryTotal entries d c)) (Fin 0) (map fst day) =
        foldl (\<lambda>s v. jadd s (sum_tasks v)) (Fin 0) (map snd day)"
    by (rule foldl_keys_values) (auto simp: getCategoryTotal_present [OF Some wf])
  with Some show ?thesis
    by (simp add: getDayTotal_def categories_of_def spread_def)
qed

theorem getDayTotal_sum_categories_witness:
  "wf_obj (spread (map_of ledger1 20157)) \<and> getDayTotal ledger1 20157 = Fin 7 \<and>
   categories_of ledger1 20157 = [''Research'', ''Teaching''] \<and>
   jadd (jadd (Fin 0) (getCategoryTotal ledger1 20157 ''Research''))
        (getCategoryTotal ledger1 20157 ''Teaching'') = Fin 7 \<and>
   map_of ledger1 20100 = None \<and> getDayTotal ledger1 20100 = Fin 0 \<and>
   getCategoryTotal ledger1 20100 ''Research'' = Fin 0"
  using getDayTotal_sum_categories [of ledger1 20157] getDayTotal_sum_categories [of ledger1 20100]
  by (simp add: ledger1_def wf_obj_def spread_def categories_of_def getDayTotal_def
        getCategoryTotal_def get_category_def sum_tasks_def or_zero_def)

text \<open>
  Claim C10. Writing one cell leaves every other cell as it was: for every triple other
  than the written one, the stored hours before and after \<open>updateEntry\<close> are the same
  (absent stays absent).
\<close>

theorem updateEntry_frame:
  "(d', c', t') \<noteq> (d, c, t) \<Longrightarrow>
   get_cell (updateEntry entries d c t v) d' c' t' = get_cell entries d' c' t'"
  by (auto simp: get_cell_updateEntry)

theorem updateEntry_frame_witness:
  "(20158, ''Teaching'', ''Marking'') \<noteq> (20157 :: int, ''Research'', ''Writing'') \<and>
   get_cell (updateEntry [(20158, [(''Teaching'', [(''Marking'', Fin 2)])])] 20157 ''Research''
      ''Writing'' ''4'') 20158 ''Teaching'' ''Marking'' = Some (Fin 2)"
  using updateEntry_frame [of 20158 "''Teaching''" "''Marking''" 20157 "''Research''" "''Writing''"
      "[(20158, [(''Teaching'', [(''Marking'', Fin 2)])])]" "''4''"]
  by (simp add: get_cell_def get_category_def)

section \<open>The taxonomy\<close>

text \<open>
  Claim C8. For a category of the taxonomy, \<open>removeTask\<close> returns a state whose ledger is
  the one before, so every day total and category total is unchanged, also for dates with
  hours against the removed task. The other categories keep their task lists, and once
  the user has confirmed, the task list of the category is the old one without the name.
\<close>

theorem removeTask_frame:
  assumes "map_of (st_categories st) category = Some ts"
  shows "\<exists>st'. removeTask confirmed st category task = Inr st' \<and>
           st_entries st' = st_entries st \<and>
           (\<forall>d. getDayTotal (st_entries st') d = getDayTotal (st_entries st) d) \<and>
           (\<forall>d c. getCategoryTotal (st_entries st') d c = getCategoryTotal (st_entries st) d c) \<and>
           (\<forall>c. c \<noteq> category \<longrightarrow> map_of (st_categories st') c = map_of (st_categories st) c) \<and>
           (confirmed \<longrightarrow>
              map_of (st_categories st') category = Some (filter (\<lambda>t. t \<noteq> task) ts))"
  using assms by (auto simp: removeTask_def map_of_obj_set)

theorem removeTask_frame_witness:
  "map_of (st_categories state1) ''Research'' = Some [''Writing'', ''Reading''] \<and>
   removeTask True state1 ''Research'' ''Writing'' =
     Inr \<lparr>st_entries = ledger1,
          st_categories = [(''Research'', [''Reading'']), (''Teaching'', [''Delivery''])]\<rparr> \<and>
   getDayTotal ledger1 20157 = Fin 7 \<and>
   getCategoryTotal ledger1 20157 ''Research'' = Fin 4"
  using removeTask_frame [of state1 "''Research''" "[''Writing'', ''Reading'']" True "''Writing''"]
  by (simp add: state1_def ledger1_def removeTask_def getDayTotal_def getCategoryTotal_def
        get_category_def sum_tasks_def or_zero_def)

section \<open>The allocation analyzer\<close>

lemma upt_0_7: "[0..<7] = [0, 1, 2, 3, 4, 5, 6]"
  by (simp add: upt_rec)

lemma stats_Some_fields:
  assumes "stats tz st entries = Some s"
  shows "actualPercentages s =
           \<lparr>Research = (if jgt (workingHoursTotal s) (Fin 0)
                         then jmul (jdiv (Research (categoryTotals s)) (workingHoursTotal s)) (Fin 100)
                         else Fin 0),
            Teaching = (if jgt (workingHoursTotal s) (Fin 0)
                         then jmul (jdiv (Teaching (categoryTotals s)) (workingHoursTotal s)) (Fin 100)
                         else Fin 0),
            Service = (if jgt (workingHoursTotal s) (Fin 0)
                        then jmul (jdiv (Service (categoryTotals s)) (workingHoursTotal s)) (Fin 100)
                        else Fin 0)\<rparr>"
    and "allocationDiff s =
           \<lparr>Research = jsub (Research (actualPercentages s)) (Research (allocation st)),
            Teaching = jsub (Teaching (actualPercentages s)) (Teaching (allocation st)),
            Service = jsub (Service (actualPercentages s)) (Service (allocation st))\<rparr>"
  using assms by (auto simp: stats_def compute_stats_def Let_def split: if_splits)

lemma stats_leave_ledger: "stats 0 default_settings leave_ledger = Some leave_stats"
  by (simp add: stats_def compute_stats_def allDates_def leave_ledger_def getDayTotal_def
     getCategoryTotal_def get_category_def sum_tasks_def or_zero_def sum_dates_def Let_def
     default_settings_def DEFAULT_ALLOCATION_def weekly_step_def getWeekDates_def newDate_def
     getDay_def localDay_def msPerDay_def addDays_def toISODate_def zero_week_def dow_step_def
     dow_zero_def dayNames_def num_get_def jsub_def upt_0_7 leave_stats_def)


text \<open>
  Claim C2, as the code has it. When the statistics exist and the working-hours total is 0,
  every actual percentage is exactly 0, and every allocation delta is 0 minus the
  configured percentage of its category: the negated target, which is 0 only for a target
  of 0. Nothing is divided.
\<close>

theorem zero_working_total:
  assumes "stats tz st entries = Some s" and "workingHoursTotal s = Fin 0"
  shows "actualPercentages s = \<lparr>Research = Fin 0, Teaching = Fin 0, Service = Fin 0\<rparr> \<and>
         allocationDiff s =
           \<lparr>Research = jneg (Research (allocation st)),
            Teaching = jneg (Teaching (allocation st)),
            Service = jneg (Service (allocation st))\<rparr>"
proof -
  have zero_sub: "jsub (Fin 0) x = jneg x" for x
    by (cases x) (simp_all add: jsub_def)
  from assms show ?thesis
    by (simp add: stats_Some_fields [OF assms(1)] zero_sub)
qed

theorem zero_working_total_witness:
  "stats 0 default_settings leave_ledger = Some leave_stats \<and>
   workingHoursTotal leave_stats = Fin 0 \<and>
   actualPercentages leave_stats = \<lparr>Research = Fin 0, Teaching = Fin 0, Service = Fin 0\<rparr> \<and>
   allocationDiff leave_stats =
     \<lparr>Research = jneg (Fin 40), Teaching = jneg (Fin 40), Service = jneg (Fin 20)\<rparr>"
  using zero_working_total [OF stats_leave_ledger] stats_leave_ledger
  by (simp add: leave_stats_def default_settings_def DEFAULT_ALLOCATION_def)

text \<open>
  With the default targets of 40, 40 and 20 per cent and only leave in the ledger, the
  working-hours total is 0 and the deltas are \<open>-40\<close>, \<open>-40\<close> and \<open>-20\<close>, not 0.
\<close>

theorem zero_working_total_counterexample:
  "map_option workingHoursTotal (stats 0 default_settings leave_ledger) = Some (Fin 0) \<and>
   map_option allocationDiff (stats 0 default_settings leave_ledger) =
     Some \<lparr>Research = Fin (- 40), Teaching = Fin (- 40), Service = Fin (- 20)\<rparr> \<and>
   Fin (- 40) \<noteq> Fin 0"
  by (simp add: stats_leave_ledger leave_stats_def)




section \<open>A zero cell and an absent cell\<close>


















section \<open>Weeks\<close>

lemma monday_offset: "(if (x + 4) mod 7 = 0 then 6 else (x + 4) mod 7 - 1) = (x + 3) mod (7::int)"
proof -
  define w where "w = (x + 4) mod 7"
  have range: "0 \<le> w" "w < 7" by (simp_all add: w_def)
  have "(x + 3) mod 7 = (x + 4 + 6) mod 7"
    using mod_add_self2 [of "x + 3" 7] by (simp add: add.commute)
  also have "\<dots> = (w + 6) mod 7"
    by (simp add: w_def mod_simps)
  finally have eq: "(x + 3) mod 7 = (w + 6) mod 7" .
  show ?thesis
  proof (cases "w = 0")
    case True
    then show ?thesis using eq by (simp add: w_def [symmetric])
  next
    case False
    with range have "0 \<le> w - 1" "w - 1 < 7" by simp_all
    then have "(w - 1) mod 7 = w - 1" by simp
    moreover have "(w + 6) mod 7 = (w - 1) mod 7"
      using mod_add_self2 [of "w - 1" 7] by (simp add: add.commute)
    ultimately show ?thesis using eq False by (simp add: w_def [symmetric])
  qed
qed

lemma weekStart_monday: "(x - (x + 3) mod 7 + 4) mod 7 = (1::int)"
proof -
  have "x + 3 = 7 * ((x + 3) div 7) + (x + 3) mod 7" by simp
  then have "x - (x + 3) mod 7 + 4 = 1 + 7 * ((x + 3) div 7)" by linarith
  then have "(x - (x + 3) mod 7 + 4) mod 7 = (1 + 7 * ((x + 3) div 7)) mod 7" by (rule arg_cong)
  also have "\<dots> = 1" by (simp only: mod_mult_self2) simp
  finally show ?thesis .
qed

lemma localDay_newDate:
  assumes "0 \<le> tz" "tz < 1440"
  shows "localDay tz (newDate x) = x"
proof -
  have "(x * 86400000 + tz * 60000) div 86400000 = x + (tz * 60000) div 86400000"
    by simp
  moreover have "(tz * 60000) div 86400000 = 0"
    using assms by (intro div_pos_pos_trivial) simp_all
  ultimately show ?thesis
    by (simp add: localDay_def newDate_def msPerDay_def)
qed

lemma toISODate_addDays_newDate: "toISODate (addDays (addDays (newDate x) k) i) = x + k + i"
proof -
  have "addDays (addDays (newDate x) k) i = (x + k + i) * msPerDay"
    by (simp add: addDays_def newDate_def algebra_simps)
  then show ?thesis by (simp add: toISODate_def msPerDay_def)
qed

text \<open>
  Where the local zone is UTC or east of it, by less than a day, \<open>getWeekDates\<close> is what
  the specification says: the seven consecutive dates from the Monday on or before the
  input, a Sunday included.
\<close>

lemma getWeekDates_east:
  assumes "0 \<le> tz" "tz < 1440"
  shows "getWeekDates tz x = map (\<lambda>i. weekStart x + int i) [0..<7]"
    and "weekday (weekStart x) = 1"
    and "weekStart x \<le> x" and "x < weekStart x + 7"
proof -
  show "getWeekDates tz x = map (\<lambda>i. weekStart x + int i) [0..<7]"
    unfolding getWeekDates_def Let_def getDay_def localDay_newDate [OF assms] monday_offset
      toISODate_addDays_newDate weekStart_def
    by simp
  show "weekday (weekStart x) = 1"
    unfolding weekday_def weekStart_def by (rule weekStart_monday)
  show "weekStart x \<le> x" "x < weekStart x + 7"
    unfolding weekStart_def by simp_all
qed

text \<open>
  Claim C7 fails on the code west of UTC. The date key is parsed as midnight UTC, which is
  the evening of the day before in local time there; \<open>getDay\<close> and \<open>setDate\<close> then work on
  that local day, and \<open>toISOString\<close> goes back to UTC. In New York (\<open>tz = -300\<close>) the week
  of Monday 2025-03-10 (day 20157) comes out as 2025-03-04 to 2025-03-10: seven
  consecutive dates, but from a Tuesday, the input being the last of them and not the
  first.
\<close>

theorem getWeekDates_west_of_utc:
  "getWeekDates (- 300) 20157 = [20151, 20152, 20153, 20154, 20155, 20156, 20157] \<and>
   weekday 20157 = 1 \<and> weekStart 20157 = 20157 \<and> weekday 20151 = 2"
  by (simp add: getWeekDates_def newDate_def getDay_def localDay_def msPerDay_def addDays_def
        toISODate_def upt_0_7 weekday_def weekStart_def)

section \<open>The missing-data detector\<close>

lemma getDay_prev: "getDay tz (addDays t (- 1)) = (getDay tz t + 6) mod 7"
proof -
  have "localDay tz (addDays t (- 1)) = localDay tz t - 1"
    by (simp add: localDay_def addDays_def msPerDay_def)
  then have "getDay tz (addDays t (- 1)) = (localDay tz t + 3) mod 7"
    by (simp add: getDay_def add.commute)
  also have "\<dots> = (localDay tz t + 3 + 7) mod 7"
    by (simp only: mod_add_self2)
  also have "\<dots> = (getDay tz t + 6) mod 7"
    by (simp add: getDay_def mod_simps)
  finally show ?thesis .
qed

lemma addDays_addDays: "addDays (addDays t a) b = addDays t (a + b)"
  by (simp add: addDays_def algebra_simps)

lemma next_scan_skip:
  assumes "\<not> incl" "getDay tz t = 0 \<or> getDay tz t = 6"
  shows "next_scan tz incl (addDays t (- 1)) = next_scan tz incl t"
  using assms by (auto simp: next_scan_def getDay_prev addDays_addDays)

lemma next_scan_eligible:
  "\<not> (\<not> incl \<and> (getDay tz t = 0 \<or> getDay tz t = 6)) \<Longrightarrow> next_scan tz incl t = t"
  by (auto simp: next_scan_def)

lemma missing_loop_unfold:
  "missing_loop entries tz days incl daysChecked t acc =
     (if daysChecked < days then
        (if \<not> incl \<and> (getDay tz t = 0 \<or> getDay tz t = 6) then
           missing_loop entries tz days incl daysChecked (addDays t (- 1)) acc
         else
           missing_loop entries tz days incl (daysChecked + 1) (addDays t (- 1))
             (if is_missing entries t then acc @ [missing_record tz t] else acc))
      else acc)"
  by (subst missing_loop.simps) (simp only: is_missing_def missing_record_def)

lemma missing_loop_refines:
  "missing_loop entries tz days incl daysChecked t acc =
     acc @ map (missing_record tz)
             (filter (is_missing entries) (scan_window tz incl (nat (days - daysChecked)) t))"
proof (induction entries tz days incl daysChecked t acc rule: missing_loop.induct)
  case (1 entries tz days incl daysChecked t acc)
  show ?case
  proof (cases "daysChecked < days")
    case False
    then show ?thesis by (subst missing_loop_unfold) simp
  next
    case True
    then obtain n where n: "nat (days - daysChecked) = Suc n"
      by (metis Suc_pred' zero_less_nat_eq diff_gt_0_iff_gt)
    with True have n': "nat (days - (daysChecked + 1)) = n" by simp
    show ?thesis
    proof (cases "\<not> incl \<and> (getDay tz t = 0 \<or> getDay tz t = 6)")
      case skip: True
      then have "scan_window tz incl (Suc n) (addDays t (- 1)) = scan_window tz incl (Suc n) t"
        by (simp add: next_scan_skip)
      with "1.IH"(1) [OF True skip] True skip n show ?thesis
        by (subst missing_loop_unfold) simp
    next
      case count: False
      then have ns: "next_scan tz incl t = t" by (rule next_scan_eligible)
      note ih = "1.IH"(2) [OF True count, folded is_missing_def missing_record_def, unfolded n']
      have "missing_loop entries tz days incl daysChecked t acc =
            missing_loop entries tz days incl (daysChecked + 1) (addDays t (- 1))
              (if is_missing entries t then acc @ [missing_record tz t] else acc)"
        by (subst missing_loop_unfold) (simp only: True count if_True if_False)
      also note ih
      finally show ?thesis
        by (simp add: n ns)
    qed
  qed
qed


lemma getMissingDays_window:
  "getMissingDays entries mdw tz now =
     (if \<not> mdw_enabled mdw then []
      else map (missing_record tz)
             (filter (is_missing entries)
                (scan_window tz (mdw_includeWeekends mdw) (nat (mdw_days mdw))
                   (addDays (setHoursZero tz now) (- 1)))))"
  by (simp add: getMissingDays_def missing_loop_refines Let_def)

lemma length_scan_window: "length (scan_window tz incl n t) = n"
  by (induction n arbitrary: t) simp_all

lemma next_scan_eligible_day:
  "incl \<or> (getDay tz (next_scan tz incl t) \<noteq> 0 \<and> getDay tz (next_scan tz incl t) \<noteq> 6)"
proof -
  have two: "getDay tz (addDays t (- 2)) = (getDay tz t + 6 + 6) mod 7"
    using getDay_prev [of tz "addDays t (- 1)"]
    by (simp add: addDays_addDays getDay_prev mod_simps)
  show ?thesis
    by (auto simp: next_scan_def getDay_prev two)
qed

lemma next_scan_back: "\<exists>k\<ge>0. next_scan tz incl t = addDays t (- k)"
proof -
  have "addDays t (- 0) = t" by (simp add: addDays_def)
  then have "next_scan tz incl t = addDays t (- 0) \<or> next_scan tz incl t = addDays t (- 1)
      \<or> next_scan tz incl t = addDays t (- 2)"
    by (auto simp: next_scan_def)
  then show ?thesis by (metis order_refl zero_le_one zero_le_numeral)
qed

lemma scan_window_members:
  "u \<in> set (scan_window tz incl n t) \<Longrightarrow>
     (incl \<or> (getDay tz u \<noteq> 0 \<and> getDay tz u \<noteq> 6)) \<and> (\<exists>k\<ge>0. u = addDays t (- k))"
proof (induction n arbitrary: t)
  case 0
  then show ?case by simp
next
  case (Suc n)
  obtain k where k: "0 \<le> k" "next_scan tz incl t = addDays t (- k)"
    using next_scan_back by blast
  from Suc.prems consider "u = next_scan tz incl t"
    | "u \<in> set (scan_window tz incl n (addDays (next_scan tz incl t) (- 1)))"
    by auto
  then show ?case
  proof cases
    case 1
    with k next_scan_eligible_day [of incl tz t] show ?thesis by auto
  next
    case 2
    from Suc.IH [OF 2] obtain j where j: "0 \<le> j"
      "u = addDays (addDays (next_scan tz incl t) (- 1)) (- j)"
      and el: "incl \<or> (getDay tz u \<noteq> 0 \<and> getDay tz u \<noteq> 6)"
      by blast
    have "u = addDays t (- (k + 1 + j))"
      by (simp add: j k addDays_addDays)
    moreover have "0 \<le> k + 1 + j" using j k by simp
    ultimately show ?thesis using el by blast
  qed
qed

lemma localDay_midnight: "localDay tz (addDays (setHoursZero tz now) (- k)) = localDay tz now - k"
proof -
  have "addDays (setHoursZero tz now) (- k) + tz * 60000 = (localDay tz now - k) * msPerDay"
    by (simp add: addDays_def setHoursZero_def algebra_simps)
  then have "localDay tz (addDays (setHoursZero tz now) (- k)) =
             ((localDay tz now - k) * msPerDay) div msPerDay"
    by (simp add: localDay_def [of tz "addDays (setHoursZero tz now) (- k)"])
  then show ?thesis by (simp add: msPerDay_def)
qed

lemma toISODate_midnight_west:
  assumes "- 1440 < tz" "tz \<le> 0"
  shows "toISODate (addDays (setHoursZero tz now) (- k)) = localDay tz now - k"
proof -
  have eq: "addDays (setHoursZero tz now) (- k) = (localDay tz now - k) * 86400000 + (- tz * 60000)"
    by (simp add: addDays_def setHoursZero_def msPerDay_def algebra_simps)
  have "((localDay tz now - k) * 86400000 + (- tz * 60000)) div 86400000 =
        (localDay tz now - k) + (- tz * 60000) div 86400000"
    by simp
  moreover have "(- tz * 60000) div 86400000 = 0"
    using assms by (intro div_pos_pos_trivial) simp_all
  ultimately show ?thesis
    by (simp add: toISODate_def msPerDay_def eq)
qed

lemma toISODate_midnight_east:
  assumes "0 < tz" "tz \<le> 1440"
  shows "toISODate (addDays (setHoursZero tz now) (- k)) = localDay tz now - k - 1"
proof -
  have eq: "addDays (setHoursZero tz now) (- k) =
            (localDay tz now - k - 1) * 86400000 + (86400000 - tz * 60000)"
    by (simp add: addDays_def setHoursZero_def msPerDay_def algebra_simps)
  have "((localDay tz now - k - 1) * 86400000 + (86400000 - tz * 60000)) div 86400000 =
        (localDay tz now - k - 1) + (86400000 - tz * 60000) div 86400000"
    by simp
  moreover have "(86400000 - tz * 60000) div 86400000 = 0"
    using assms by (intro div_pos_pos_trivial) simp_all
  ultimately show ?thesis
    by (simp add: toISODate_def msPerDay_def eq)
qed

lemma getMissingDays_records:
  assumes "r \<in> set (getMissingDays entries mdw tz now)"
  shows "mdw_enabled mdw"
    and "md_formatted r < localDay tz now"
    and "jeq (getDayTotal entries (md_date r)) (Fin 0)"
    and "mdw_includeWeekends mdw \<or> \<not> md_isWeekend r"
    and "- 1440 < tz \<Longrightarrow> tz \<le> 0 \<Longrightarrow> md_date r = md_formatted r"
    and "0 < tz \<Longrightarrow> tz \<le> 1440 \<Longrightarrow> md_date r = md_formatted r - 1"
proof -
  from assms show en: "mdw_enabled mdw"
    by (auto simp: getMissingDays_window split: if_splits)
  with assms obtain u where u: "r = missing_record tz u" "is_missing entries u"
    "u \<in> set (scan_window tz (mdw_includeWeekends mdw) (nat (mdw_days mdw))
                (addDays (setHoursZero tz now) (- 1)))"
    by (auto simp: getMissingDays_window)
  from scan_window_members [OF u(3)] obtain k where k: "0 \<le> k"
    "u = addDays (addDays (setHoursZero tz now) (- 1)) (- k)"
    and el: "mdw_includeWeekends mdw \<or> (getDay tz u \<noteq> 0 \<and> getDay tz u \<noteq> 6)"
    by blast
  have u': "u = addDays (setHoursZero tz now) (- (1 + k))"
    by (simp add: k addDays_addDays)
  have ld: "localDay tz u = localDay tz now - (1 + k)"
    unfolding u' by (rule localDay_midnight)
  show "md_formatted r < localDay tz now"
    using k(1) by (simp add: u(1) missing_record_def ld)
  show "jeq (getDayTotal entries (md_date r)) (Fin 0)"
    using u(2) by (simp add: u(1) missing_record_def is_missing_def)
  show "mdw_includeWeekends mdw \<or> \<not> md_isWeekend r"
    using el by (auto simp: u(1) missing_record_def)
  show "md_date r = md_formatted r" if "- 1440 < tz" "tz \<le> 0"
  proof -
    have "toISODate u = localDay tz now - (1 + k)"
      unfolding u' by (rule toISODate_midnight_west [OF that])
    then show ?thesis by (simp add: u(1) missing_record_def ld)
  qed
  show "md_date r = md_formatted r - 1" if "0 < tz" "tz \<le> 1440"
  proof -
    have "toISODate u = localDay tz now - (1 + k) - 1"
      unfolding u' by (rule toISODate_midnight_east [OF that])
    then show ?thesis by (simp add: u(1) missing_record_def ld)
  qed
qed


lemma localDay_addDays: "localDay tz (addDays t (- k)) = localDay tz t - k"
proof -
  have "(t + tz * 60000 + (- k) * 86400000) div 86400000 = (t + tz * 60000) div 86400000 + (- k)"
    using div_mult_self1 [of 86400000 "t + tz * 60000" "- k"] by (simp add: add.commute)
  then show ?thesis
    by (simp add: localDay_def addDays_def msPerDay_def algebra_simps)
qed

lemma scan_window_newest_first:
  "sorted_wrt (\<lambda>a b. localDay tz b < localDay tz a) (scan_window tz incl n t)"
proof (induction n arbitrary: t)
  case 0
  then show ?case by simp
next
  case (Suc n)
  have "localDay tz v < localDay tz (next_scan tz incl t)"
    if "v \<in> set (scan_window tz incl n (addDays (next_scan tz incl t) (- 1)))" for v
  proof -
    from scan_window_members [OF that] obtain k where "0 \<le> k"
      "v = addDays (addDays (next_scan tz incl t) (- 1)) (- k)" by blast
    then show ?thesis by (simp add: localDay_addDays)
  qed
  with Suc.IH show ?case by simp
qed

lemma getMissingDays_newest_first:
  "sorted_wrt (\<lambda>a b. md_formatted b < md_formatted a) (getMissingDays entries mdw tz now)"
proof -
  have "sorted_wrt (\<lambda>a b. md_formatted (missing_record tz b) < md_formatted (missing_record tz a))
          (filter (is_missing entries) (scan_window tz incl n t))" for incl n t
    using scan_window_newest_first [of tz incl n t]
    by (simp add: missing_record_def sorted_wrt_filter)
  then show ?thesis
    by (simp add: getMissingDays_window sorted_wrt_map)
qed

text \<open>
  Claim C6 fails on the code east of UTC. The walk itself is the one of the specification
  in every zone (\<open>getMissingDays_window\<close>): it starts the day before today, goes back a day
  at a time, skips the excluded weekend days without counting them, scans exactly \<open>days\<close>
  days and reports newest first. But the key under which a scanned day is looked up and
  reported is the UTC date of its local midnight, and east of UTC that is the day before.
  In Brisbane (\<open>tz = 600\<close>) on Wednesday 2025-03-12 at 09:00, with a window of one day: the
  scanned day is Tuesday 2025-03-11 (day 20158). With hours on that Tuesday only, the
  detector reports a missing day, dated Monday and labelled Tuesday; with hours on the
  Monday only, it reports nothing, although the total of the scanned Tuesday is 0.
\<close>

theorem getMissingDays_east_of_utc:
  "localDay 600 (20158 * 86400000 + 23 * 3600000) = 20159 \<and>
   getDayTotal tuesday_ledger 20158 = Fin 2 \<and>
   getMissingDays tuesday_ledger
       \<lparr>mdw_enabled = True, mdw_days = 1, mdw_includeWeekends = False\<rparr>
       600 (20158 * 86400000 + 23 * 3600000) =
     [\<lparr>md_date = 20157, md_formatted = 20158, md_isWeekend = False\<rparr>] \<and>
   getDayTotal monday_ledger 20158 = Fin 0 \<and>
   getMissingDays monday_ledger
       \<lparr>mdw_enabled = True, mdw_days = 1, mdw_includeWeekends = False\<rparr>
       600 (20158 * 86400000 + 23 * 3600000) = []"
  by code_simp

text \<open>The same two ledgers at 09:00 on the same Wednesday in UTC, where the keys agree.\<close>

lemma getMissingDays_utc:
  "getMissingDays tuesday_ledger
       \<lparr>mdw_enabled = True, mdw_days = 1, mdw_includeWeekends = False\<rparr>
       0 (20159 * 86400000 + 9 * 3600000) = [] \<and>
   getMissingDays monday_ledger
       \<lparr>mdw_enabled = True, mdw_days = 1, mdw_includeWeekends = False\<rparr>
       0 (20159 * 86400000 + 9 * 3600000) =
     [\<lparr>md_date = 20158, md_formatted = 20158, md_isWeekend = False\<rparr>]"
  by code_simp
end
